theory Spec2Isabelle
  imports Main "HOL-Library.Word"
begin

section \<open>Exporters and archives of \<^verbatim>\<open>holoviews/core/io.py\<close>\<close>

text \<open>
  The module defines the abstract \<^verbatim>\<open>Exporter\<close> (a parameterized function), the
  concrete \<^verbatim>\<open>Pickler\<close> and the abstract \<^verbatim>\<open>Archive\<close>. Everything the module
  does beyond building a dictionary is done by two libraries it imports, \<^verbatim>\<open>pickle\<close>
  and \<^verbatim>\<open>param\<close>, and by the interpreter (\<^verbatim>\<open>open\<close>, the \<^verbatim>\<open>with\<close> statement,
  argument binding). None of these is part of the module. The serializer and the file
  layer enter the model as the fields of a record \<open>runtime\<close>, so that every theorem
  holds for any behaviour of theirs unless a hypothesis says otherwise; the control
  structure of the language (exceptions, \<^verbatim>\<open>with\<close>, argument binding) is written out.
\<close>

subsection \<open>Values, errors, the world\<close>

type_synonym byte = "8 word"

text \<open>The classes of the module; \<open>ObjectC\<close> stands for every class outside it.\<close>

datatype pyclass = ObjectC | ExporterC | PicklerC | ArchiveC

text \<open>
  Python values: the plain data the exporters are given, and instances of classes.
  An instance carries its class and its attribute values.
\<close>

datatype pyobj =
    PyNone
  | PyInt int
  | PyStr string
  | PyList "pyobj list"
  | PyInstance pyclass "(string \<times> pyobj) list"

text \<open>
  Exceptions. \<open>NotImplementedError\<close> carries the message the source gives it
  (empty where the source raises the bare class).
\<close>

datatype py_error =
    NotImplementedError string
  | TypeError
  | ValueError
  | PicklingError
  | UnpicklingError
  | IOError

datatype file_mode = TextMode | BinaryMode

record handle =
  h_path :: string
  h_mode :: file_mode

text \<open>
  The world outside the interpreter's heap: the contents of the files, and the file
  objects that are open, the most recently opened first.
\<close>

record world =
  files :: "string \<rightharpoonup> byte list"
  opened :: "handle list"

text \<open>
  What the module takes from outside:
  \<^item> \<open>serialize obj p\<close>: the byte stream \<^verbatim>\<open>pickle.Pickler(file, p).dump(obj)\<close> emits,
    and the exception that ends it, if any. Both \<^verbatim>\<open>pickle.dumps\<close> and
    \<^verbatim>\<open>pickle.dump\<close> are this stream, sent to a buffer or to the given file;
  \<^item> \<open>unpickle\<close>: \<^verbatim>\<open>pickle.loads\<close>;
  \<^item> \<open>text_layer bs\<close>: what a file opened in text mode stores when \<open>bs\<close> is written
    to it, or the exception the write raises;
  \<^item> \<open>openable path\<close>: whether \<^verbatim>\<open>open(path, 'w')\<close> succeeds.
\<close>

record runtime =
  serialize :: "pyobj \<Rightarrow> int \<Rightarrow> byte list \<times> py_error option"
  unpickle :: "byte list \<Rightarrow> py_error + pyobj"
  text_layer :: "byte list \<Rightarrow> py_error + byte list"
  openable :: "string \<Rightarrow> bool"

subsection \<open>The library calls of the module\<close>

text \<open>\<^verbatim>\<open>pickle.dumps(obj, protocol=p)\<close>: the whole stream, or the exception.\<close>

definition pickle_dumps :: "runtime \<Rightarrow> pyobj \<Rightarrow> int \<Rightarrow> py_error + byte list" where
  "pickle_dumps rt obj p =
     (case serialize rt obj p of
        (bs, None) \<Rightarrow> Inr bs
      | (bs, Some e) \<Rightarrow> Inl e)"

text \<open>
  \<^verbatim>\<open>open(path, 'w')\<close> and \<^verbatim>\<open>open(path, 'wb')\<close>: on success the file exists and is
  empty, and a new file object is open.
\<close>

definition open_file :: "runtime \<Rightarrow> string \<Rightarrow> file_mode \<Rightarrow> world \<Rightarrow> (py_error + handle) \<times> world" where
  "open_file rt path m w =
     (if openable rt path
      then (let f = \<lparr>h_path = path, h_mode = m\<rparr>
            in (Inr f, w\<lparr>files := (files w)(path \<mapsto> []), opened := f # opened w\<rparr>))
      else (Inl IOError, w))"

definition close_file :: "handle \<Rightarrow> world \<Rightarrow> world" where
  "close_file f w = w\<lparr>opened := remove1 f (opened w)\<rparr>"

definition append_bytes :: "string \<Rightarrow> byte list \<Rightarrow> world \<Rightarrow> world" where
  "append_bytes path bs w =
     w\<lparr>files := (files w)(path \<mapsto> (case files w path of None \<Rightarrow> bs | Some old \<Rightarrow> old @ bs))\<rparr>"

text \<open>\<^verbatim>\<open>f.write(bs)\<close>: a binary file stores the bytes, a text file what its layer makes
  of them.\<close>

definition file_write :: "runtime \<Rightarrow> handle \<Rightarrow> byte list \<Rightarrow> world \<Rightarrow> (py_error + unit) \<times> world" where
  "file_write rt f bs w =
     (case h_mode f of
        BinaryMode \<Rightarrow> (Inr (), append_bytes (h_path f) bs w)
      | TextMode \<Rightarrow>
          (case text_layer rt bs of
             Inl e \<Rightarrow> (Inl e, w)
           | Inr bs' \<Rightarrow> (Inr (), append_bytes (h_path f) bs' w)))"

text \<open>
  \<^verbatim>\<open>pickle.dump(obj, f, protocol=p)\<close>: the emitted stream is written to \<open>f\<close> (no write
  happens when nothing was emitted); a failing write raises, and so does a stream that
  ended in an exception.
\<close>

definition pickle_dump :: "runtime \<Rightarrow> pyobj \<Rightarrow> handle \<Rightarrow> int \<Rightarrow> world \<Rightarrow> (py_error + unit) \<times> world" where
  "pickle_dump rt obj f p w =
     (case serialize rt obj p of
        (bs, err) \<Rightarrow>
          (case (if bs = [] then (Inr (), w) else file_write rt f bs w) of
             (Inl e, w1) \<Rightarrow> (Inl e, w1)
           | (Inr u, w1) \<Rightarrow>
               (case err of
                  Some e \<Rightarrow> (Inl e, w1)
                | None \<Rightarrow> (Inr (), w1))))"

subsection \<open>Exporter\<close>

text \<open>
  \<^verbatim>\<open>Exporter.__call__(self, obj, fmt=None)\<close> and
  \<^verbatim>\<open>Exporter.save(self, obj, basename, fmt=None)\<close>: each raises at once. The base
  class declares no parameter of its own, so an instance has no field the model needs.
\<close>

definition Exporter_call :: "pyobj \<Rightarrow> pyobj \<Rightarrow> world \<Rightarrow> (py_error + byte list \<times> (string \<rightharpoonup> pyobj)) \<times> world" where
  "Exporter_call obj fmt w = (Inl (NotImplementedError ''Exporter not implemented.''), w)"

definition Exporter_save :: "pyobj \<Rightarrow> string \<Rightarrow> pyobj \<Rightarrow> world \<Rightarrow> (py_error + unit) \<times> world" where
  "Exporter_save obj basename fmt w =
     (Inl (NotImplementedError ''Exporter save method not implemented.''), w)"

subsection \<open>Pickler\<close>

text \<open>\<^verbatim>\<open>protocol = param.Integer(default=2)\<close>.\<close>

record pickler =
  protocol :: int

definition Pickler_default :: pickler where
  "Pickler_default = \<lparr>protocol = 2\<rparr>"

text \<open>The dictionary \<^verbatim>\<open>__call__\<close> returns beside the data, in the source's order.\<close>

definition Pickler_metadata :: "byte list \<Rightarrow> (string \<rightharpoonup> pyobj)" where
  "Pickler_metadata data =
     map_of [(''file-ext'', PyStr ''pkl''),
             (''size'', PyInt (int (length data))),
             (''mime-type'', PyStr ''application/python-pickle'')]"

definition Pickler_call :: "runtime \<Rightarrow> pickler \<Rightarrow> pyobj \<Rightarrow> world \<Rightarrow> (py_error + byte list \<times> (string \<rightharpoonup> pyobj)) \<times> world" where
  "Pickler_call rt self obj w =
     (case pickle_dumps rt obj (protocol self) of
        Inl e \<Rightarrow> (Inl e, w)
      | Inr data \<Rightarrow> (Inr (data, Pickler_metadata data), w))"

text \<open>
  \<^verbatim>\<open>with open(basename+'.pkl', 'w') as f: pickle.dump(obj, f, protocol=self.protocol)\<close>.
  When \<^verbatim>\<open>open\<close> raises, the body and the exit of the \<^verbatim>\<open>with\<close> block do not run;
  otherwise the exit closes \<open>f\<close> whether the body returned or raised, and the body's
  exception, if any, goes on to the caller.
\<close>

definition Pickler_save :: "runtime \<Rightarrow> pickler \<Rightarrow> pyobj \<Rightarrow> string \<Rightarrow> world \<Rightarrow> (py_error + unit) \<times> world" where
  "Pickler_save rt self obj basename w =
     (case open_file rt (basename @ ''.pkl'') TextMode w of
        (Inl e, w1) \<Rightarrow> (Inl e, w1)
      | (Inr f, w1) \<Rightarrow>
          (case pickle_dump rt obj f (protocol self) w1 of
             (r, w2) \<Rightarrow> (r, close_file f w2)))"

subsection \<open>Calling a method: argument binding\<close>

text \<open>
  A signature lists the parameters after \<^verbatim>\<open>self\<close>, each with its default if it has
  one. A call gives positional and keyword arguments. Binding raises \<^verbatim>\<open>TypeError\<close>
  when there are more positional arguments than parameters, when a keyword names no
  parameter, when a parameter is given twice, or when a parameter without default is
  not given; otherwise every parameter is bound, to the argument or to the default.
\<close>

type_synonym signature = "(string \<times> pyobj option) list"

definition defaults_of :: "signature \<Rightarrow> (string \<times> pyobj) list" where
  "defaults_of sg = List.map_filter (\<lambda>(n, d). map_option (Pair n) d) sg"

definition bind_args :: "signature \<Rightarrow> pyobj list \<Rightarrow> (string \<times> pyobj) list \<Rightarrow> py_error + (string \<rightharpoonup> pyobj)" where
  "bind_args sg args kwargs =
     (let names = map fst sg;
          positional = zip names args;
          given = positional @ kwargs
      in if length names < length args then Inl TypeError
         else if list_ex (\<lambda>k. k \<notin> set names) (map fst kwargs) then Inl TypeError
         else if \<not> distinct (map fst given) then Inl TypeError
         else if list_ex (\<lambda>(n, d). d = None \<and> map_of given n = None) sg then Inl TypeError
         else Inr (map_of (given @ defaults_of sg)))"

text \<open>\<^verbatim>\<open>def __call__(self, obj, fmt=None)\<close> of \<^verbatim>\<open>Exporter\<close> and
  \<^verbatim>\<open>def __call__(self, obj)\<close> of \<^verbatim>\<open>Pickler\<close>.\<close>

definition Exporter_call_signature :: signature where
  "Exporter_call_signature = [(''obj'', None), (''fmt'', Some PyNone)]"

definition Pickler_call_signature :: signature where
  "Pickler_call_signature = [(''obj'', None)]"

definition Exporter_invoke :: "pyobj list \<Rightarrow> (string \<times> pyobj) list \<Rightarrow> world \<Rightarrow> (py_error + byte list \<times> (string \<rightharpoonup> pyobj)) \<times> world" where
  "Exporter_invoke args kwargs w =
     (case bind_args Exporter_call_signature args kwargs of
        Inl e \<Rightarrow> (Inl e, w)
      | Inr b \<Rightarrow>
          (case (b ''obj'', b ''fmt'') of
             (Some obj, Some fmt) \<Rightarrow> Exporter_call obj fmt w
           | _ \<Rightarrow> (Inl TypeError, w)))"

definition Pickler_invoke :: "runtime \<Rightarrow> pickler \<Rightarrow> pyobj list \<Rightarrow> (string \<times> pyobj) list \<Rightarrow> world \<Rightarrow> (py_error + byte list \<times> (string \<rightharpoonup> pyobj)) \<times> world" where
  "Pickler_invoke rt self args kwargs w =
     (case bind_args Pickler_call_signature args kwargs of
        Inl e \<Rightarrow> (Inl e, w)
      | Inr b \<Rightarrow>
          (case b ''obj'' of
             Some obj \<Rightarrow> Pickler_call rt self obj w
           | None \<Rightarrow> (Inl TypeError, w)))"

subsection \<open>Archive\<close>

text \<open>
  \<^verbatim>\<open>Pickler\<close> extends \<^verbatim>\<open>Exporter\<close>; every class extends \<^verbatim>\<open>object\<close>. The plain
  values are instances of classes outside the module.
\<close>

fun issubclass :: "pyclass \<Rightarrow> pyclass \<Rightarrow> bool" where
  "issubclass c ObjectC = True"
| "issubclass PicklerC ExporterC = True"
| "issubclass c d = (c = d)"

fun isinstance :: "pyobj \<Rightarrow> pyclass \<Rightarrow> bool" where
  "isinstance (PyInstance c attrs) d = issubclass c d"
| "isinstance v d = (d = ObjectC)"

text \<open>
  Modelled from the spec: \<^verbatim>\<open>param.ClassSelector\<close>, the type of the declaration
  \<^verbatim>\<open>exporter = param.ClassSelector(class_=Exporter)\<close>, is missing from the sources.
  The spec has the attributes of a parameterized class typed, defaulted and validated;
  the declaration names the class and gives no default, so the attribute starts as
  \<^verbatim>\<open>None\<close>, and a value is accepted when it is \<^verbatim>\<open>None\<close> or an instance of the class,
  and refused with \<^verbatim>\<open>ValueError\<close> otherwise.
\<close>

definition ClassSelector_check :: "pyclass \<Rightarrow> pyobj \<Rightarrow> py_error + pyobj" where
  "ClassSelector_check cls val =
     (if val = PyNone then Inr val
      else if isinstance val cls then Inr val
      else Inl ValueError)"

record archive =
  exporter :: pyobj

text \<open>\<^verbatim>\<open>Archive()\<close> and \<^verbatim>\<open>Archive(exporter=val)\<close>.\<close>

definition Archive_init :: "pyobj option \<Rightarrow> py_error + archive" where
  "Archive_init kw =
     (case kw of
        None \<Rightarrow> Inr \<lparr>exporter = PyNone\<rparr>
      | Some val \<Rightarrow>
          (case ClassSelector_check ExporterC val of
             Inl e \<Rightarrow> Inl e
           | Inr v \<Rightarrow> Inr \<lparr>exporter = v\<rparr>))"

text \<open>\<^verbatim>\<open>archive.exporter = val\<close>.\<close>

definition Archive_set_exporter :: "archive \<Rightarrow> pyobj \<Rightarrow> py_error + archive" where
  "Archive_set_exporter self val =
     (case ClassSelector_check ExporterC val of
        Inl e \<Rightarrow> Inl e
      | Inr v \<Rightarrow> Inr (self\<lparr>exporter := v\<rparr>))"

text \<open>
  \<^verbatim>\<open>Archive.add(self, obj, *args, **kwargs)\<close> and
  \<^verbatim>\<open>Archive.export(self, *args, **kwargs)\<close>: each raises the bare
  \<^verbatim>\<open>NotImplementedError\<close>. A method may change the archive, so it returns it.
\<close>

definition Archive_add :: "archive \<Rightarrow> pyobj \<Rightarrow> pyobj list \<Rightarrow> (string \<times> pyobj) list \<Rightarrow> world \<Rightarrow> (py_error + unit) \<times> archive \<times> world" where
  "Archive_add self obj args kwargs w = (Inl (NotImplementedError []), self, w)"

definition Archive_export :: "archive \<Rightarrow> pyobj list \<Rightarrow> (string \<times> pyobj) list \<Rightarrow> world \<Rightarrow> (py_error + unit) \<times> archive \<times> world" where
  "Archive_export self args kwargs w = (Inl (NotImplementedError []), self, w)"

text \<open>
  What a caller can do with an archive, and the archive and world it is left with
  (a caller that catches the exception goes on with the archive as the failed
  operation left it).
\<close>

datatype archive_op =
    SetExporter pyobj
  | Add pyobj "pyobj list" "(string \<times> pyobj) list"
  | Export "pyobj list" "(string \<times> pyobj) list"

fun Archive_step :: "archive_op \<Rightarrow> archive \<times> world \<Rightarrow> archive \<times> world" where
  "Archive_step (SetExporter val) (a, w) =
     (case Archive_set_exporter a val of Inl e \<Rightarrow> (a, w) | Inr a' \<Rightarrow> (a', w))"
| "Archive_step (Add obj args kwargs) (a, w) = snd (Archive_add a obj args kwargs w)"
| "Archive_step (Export args kwargs) (a, w) = snd (Archive_export a args kwargs w)"

fun Archive_run :: "archive_op list \<Rightarrow> archive \<times> world \<Rightarrow> archive \<times> world" where
  "Archive_run [] s = s"
| "Archive_run (x # xs) s = Archive_run xs (Archive_step x s)"

definition Archive_inv :: "archive \<Rightarrow> bool" where
  "Archive_inv a = (if exporter a = PyNone then True else isinstance (exporter a) ExporterC)"

subsection \<open>A runtime for the examples\<close>

text \<open>
  The examples need a concrete runtime. Its serializer answers as CPython's
  \<^verbatim>\<open>pickle\<close> does for the list \<^verbatim>\<open>[1, 2, 3]\<close> at protocols 2 and 0
  (\<^verbatim>\<open>b'\x80\x02]q\x00(K\x01K\x02K\x03e.'\<close> and \<^verbatim>\<open>b'(lp0\nI1\naI2\naI3\na.'\<close>),
  refuses every other protocol, and for any other object fails after the two-byte
  protocol header, or at once below protocol 2.
\<close>

definition example_list :: pyobj where
  "example_list = PyList [PyInt 1, PyInt 2, PyInt 3]"

definition example_stream2 :: "byte list" where
  "example_stream2 =
     [0x80, 0x02, 0x5D, 0x71, 0x00, 0x28, 0x4B, 0x01, 0x4B, 0x02, 0x4B, 0x03, 0x65, 0x2E]"

definition example_stream0 :: "byte list" where
  "example_stream0 =
     [0x28, 0x6C, 0x70, 0x30, 0x0A, 0x49, 0x31, 0x0A, 0x61, 0x49, 0x32, 0x0A, 0x61,
      0x49, 0x33, 0x0A, 0x61, 0x2E]"

definition example_serialize :: "pyobj \<Rightarrow> int \<Rightarrow> byte list \<times> py_error option" where
  "example_serialize obj p =
     (if obj = example_list
      then (if p = 2 then (example_stream2, None)
            else if p = 0 then (example_stream0, None)
            else ([], Some ValueError))
      else (if p = 2 then ([0x80, 0x02], Some PicklingError)
            else ([], Some PicklingError)))"

definition example_unpickle :: "byte list \<Rightarrow> py_error + pyobj" where
  "example_unpickle bs =
     (if bs = example_stream2 then Inr example_list
      else if bs = example_stream0 then Inr example_list
      else Inl UnpicklingError)"

text \<open>
  The three text layers a file opened with \<^verbatim>\<open>'w'\<close> can have: Python 3 refuses
  bytes (\<^verbatim>\<open>TypeError\<close>: write() argument must be str, not bytes); Python 2 stores
  them as they are on POSIX and writes every line feed as carriage return and line
  feed on Windows.
\<close>

definition text_layer_py3 :: "byte list \<Rightarrow> py_error + byte list" where
  "text_layer_py3 bs = Inl TypeError"

definition text_layer_py2_posix :: "byte list \<Rightarrow> py_error + byte list" where
  "text_layer_py2_posix bs = Inr bs"

definition text_layer_py2_windows :: "byte list \<Rightarrow> py_error + byte list" where
  "text_layer_py2_windows bs = Inr (concat (map (\<lambda>b. if b = 0x0A then [0x0D, 0x0A] else [b]) bs))"

definition example_runtime :: "(byte list \<Rightarrow> py_error + byte list) \<Rightarrow> runtime" where
  "example_runtime layer =
     \<lparr>serialize = example_serialize,
      unpickle = example_unpickle,
      text_layer = layer,
      openable = (\<lambda>path. take 9 path \<noteq> ''/missing/'')\<rparr>"

definition empty_world :: world where
  "empty_world = \<lparr>files = Map.empty, opened = []\<rparr>"

section \<open>Properties\<close>

subsection \<open>The metadata of a pickled object\<close>

lemma Pickler_metadata_dom:
  "dom (Pickler_metadata data) = {''file-ext'', ''size'', ''mime-type''}"
  by (auto simp: Pickler_metadata_def split: if_splits)

text \<open>
  C1. Whenever the serializer succeeds on \<open>obj\<close> at the configured protocol,
  \<^verbatim>\<open>Pickler.__call__\<close> returns a pair of the payload and a dictionary with exactly
  the keys \<^verbatim>\<open>file-ext\<close>, \<^verbatim>\<open>size\<close> and \<^verbatim>\<open>mime-type\<close>, where \<^verbatim>\<open>size\<close> is the
  number of bytes of the payload, \<^verbatim>\<open>mime-type\<close> is
  \<^verbatim>\<open>application/python-pickle\<close> and \<^verbatim>\<open>file-ext\<close> is \<^verbatim>\<open>pkl\<close>.
\<close>

theorem Pickler_call_metadata:
  assumes "pickle_dumps rt obj (protocol self) = Inr data"
  shows "\<exists>payload meta.
           Pickler_call rt self obj w = (Inr (payload, meta), w)
         \<and> payload = data
         \<and> meta ''size'' = Some (PyInt (int (length payload)))
         \<and> meta ''mime-type'' = Some (PyStr ''application/python-pickle'')
         \<and> meta ''file-ext'' = Some (PyStr ''pkl'')
         \<and> dom meta = {''file-ext'', ''size'', ''mime-type''}"
  using assms
  by (simp add: Pickler_call_def Pickler_metadata_dom) (simp add: Pickler_metadata_def)

theorem Pickler_call_metadata_witness:
  "pickle_dumps (example_runtime text_layer_py3) example_list (protocol Pickler_default) = Inr example_stream2
   \<and> (\<exists>payload meta.
         Pickler_call (example_runtime text_layer_py3) Pickler_default example_list empty_world
           = (Inr (payload, meta), empty_world)
       \<and> payload = example_stream2
       \<and> meta ''size'' = Some (PyInt 14)
       \<and> meta ''mime-type'' = Some (PyStr ''application/python-pickle'')
       \<and> meta ''file-ext'' = Some (PyStr ''pkl'')
       \<and> dom meta = {''file-ext'', ''size'', ''mime-type''})"
proof -
  have h: "pickle_dumps (example_runtime text_layer_py3) example_list (protocol Pickler_default)
             = Inr example_stream2"
    by (simp add: pickle_dumps_def example_runtime_def example_serialize_def Pickler_default_def)
  have n: "int (length example_stream2) = 14"
    by (simp add: example_stream2_def)
  from Pickler_call_metadata [OF h, of empty_world] show ?thesis
    using h n by simp
qed

subsection \<open>Round trip\<close>



subsection \<open>Saving to disk\<close>

text \<open>
  Where the text layer stores the stream as it is (Python 2 on POSIX), the file
  \<^verbatim>\<open>basename.pkl\<close> holds the payload of \<^verbatim>\<open>__call__\<close>.
\<close>

lemma Pickler_save_contents:
  assumes "openable rt (basename @ ''.pkl'')"
    and "serialize rt obj (protocol self) = (data, None)"
    and "text_layer rt data = Inr data"
  shows "Pickler_save rt self obj basename w
           = (Inr (), w\<lparr>files := (files w)(basename @ ''.pkl'' \<mapsto> data)\<rparr>)
       \<and> fst (Pickler_call rt self obj w) = Inr (data, Pickler_metadata data)"
  using assms
  by (simp add: Pickler_save_def open_file_def Let_def pickle_dump_def file_write_def
      append_bytes_def close_file_def Pickler_call_def pickle_dumps_def)

text \<open>
  C3. \<^verbatim>\<open>Pickler.save\<close> is to leave in \<^verbatim>\<open>basename.pkl\<close> the payload of
  \<^verbatim>\<open>Pickler.__call__\<close>. It opens the file with \<^verbatim>\<open>'w'\<close>, in text mode, and the
  file does not hold the payload where the text layer is not the identity. Under
  Python 3, saving \<^verbatim>\<open>[1, 2, 3]\<close> as \<^verbatim>\<open>name\<close> with the default protocol raises
  \<^verbatim>\<open>TypeError\<close> and leaves \<^verbatim>\<open>name.pkl\<close> empty, while \<^verbatim>\<open>__call__\<close> returns
  fourteen bytes. Under Python 2 on Windows, saving it at protocol 0 stores a carriage
  return before each of the four line feeds of the payload.
\<close>

theorem Pickler_save_text_mode:
  "Pickler_save (example_runtime text_layer_py3) Pickler_default example_list ''name'' empty_world
     = (Inl TypeError, \<lparr>files = [''name.pkl'' \<mapsto> []], opened = []\<rparr>)
   \<and> fst (Pickler_call (example_runtime text_layer_py3) Pickler_default example_list empty_world)
     = Inr (example_stream2, Pickler_metadata example_stream2)
   \<and> example_stream2 \<noteq> []
   \<and> Pickler_save (example_runtime text_layer_py2_windows) \<lparr>protocol = 0\<rparr> example_list ''name'' empty_world
     = (Inr (), \<lparr>files = [''name.pkl'' \<mapsto>
          [0x28, 0x6C, 0x70, 0x30, 0x0D, 0x0A, 0x49, 0x31, 0x0D, 0x0A, 0x61, 0x49, 0x32, 0x0D, 0x0A,
           0x61, 0x49, 0x33, 0x0D, 0x0A, 0x61, 0x2E]], opened = []\<rparr>)
   \<and> fst (Pickler_call (example_runtime text_layer_py2_windows) \<lparr>protocol = 0\<rparr> example_list empty_world)
     = Inr ([0x28, 0x6C, 0x70, 0x30, 0x0A, 0x49, 0x31, 0x0A, 0x61, 0x49, 0x32, 0x0A, 0x61,
             0x49, 0x33, 0x0A, 0x61, 0x2E], Pickler_metadata example_stream0)"
  by (simp add: Pickler_save_def open_file_def Let_def pickle_dump_def file_write_def
      append_bytes_def close_file_def Pickler_call_def pickle_dumps_def
      example_runtime_def example_serialize_def Pickler_default_def empty_world_def
      text_layer_py3_def text_layer_py2_windows_def example_stream2_def example_stream0_def)

lemma file_write_opened: "opened (snd (file_write rt f bs w)) = opened w"
  by (simp add: file_write_def append_bytes_def split: file_mode.split sum.split)

lemma pickle_dump_opened: "opened (snd (pickle_dump rt obj f p w)) = opened w"
proof (cases "serialize rt obj p")
  case (Pair bs err)
  show ?thesis
  proof (cases "bs = []")
    case True
    with Pair show ?thesis
      by (simp add: pickle_dump_def split: option.split)
  next
    case False
    obtain r w1 where fw: "file_write rt f bs w = (r, w1)"
      by (cases "file_write rt f bs w")
    with file_write_opened [of rt f bs w] have "opened w1 = opened w"
      by simp
    with Pair False fw show ?thesis
      by (simp add: pickle_dump_def split: sum.split option.split)
  qed
qed

text \<open>
  C7. Whatever \<^verbatim>\<open>Pickler.save\<close> does (the file cannot be opened, the write raises,
  the serializer raises after part of the stream, or all succeeds), the file objects
  open after it are those open before it: the one it opened is closed.
\<close>

theorem Pickler_save_closes_file:
  "opened (snd (Pickler_save rt self obj basename w)) = opened w"
proof (cases "openable rt (basename @ ''.pkl'')")
  case False
  then show ?thesis
    by (simp add: Pickler_save_def open_file_def)
next
  case True
  define f where "f = \<lparr>h_path = basename @ ''.pkl'', h_mode = TextMode\<rparr>"
  define w1 where "w1 = w\<lparr>files := (files w)(basename @ ''.pkl'' \<mapsto> []), opened := f # opened w\<rparr>"
  obtain r w2 where pd: "pickle_dump rt obj f (protocol self) w1 = (r, w2)"
    by (cases "pickle_dump rt obj f (protocol self) w1")
  with pickle_dump_opened [of rt obj f "protocol self" w1]
  have "opened w2 = f # opened w"
    by (simp add: w1_def)
  with True pd show ?thesis
    by (simp add: Pickler_save_def open_file_def Let_def close_file_def f_def w1_def)
qed

text \<open>
  The serializer raising partway: an object that cannot be pickled, at protocol 2,
  after the protocol header has been written. The exception reaches the caller, the
  file holds the header, and no file object is left open.
\<close>

theorem Pickler_save_closes_file_witness:
  "Pickler_save (example_runtime text_layer_py2_posix) Pickler_default (PyInstance ObjectC []) ''name'' empty_world
     = (Inl PicklingError, \<lparr>files = [''name.pkl'' \<mapsto> [0x80, 0x02]], opened = []\<rparr>)
   \<and> opened (snd (Pickler_save (example_runtime text_layer_py2_posix) Pickler_default
         (PyInstance ObjectC []) ''name'' empty_world)) = opened empty_world"
  using Pickler_save_closes_file [of "example_runtime text_layer_py2_posix" Pickler_default
      "PyInstance ObjectC []" "''name''" empty_world]
  by (simp add: Pickler_save_def open_file_def Let_def pickle_dump_def file_write_def
      append_bytes_def close_file_def example_runtime_def example_serialize_def
      example_list_def Pickler_default_def empty_world_def text_layer_py2_posix_def)

subsection \<open>The protocol\<close>



subsection \<open>Errors\<close>

text \<open>
  C6. \<^verbatim>\<open>Pickler.__call__\<close> has two outcomes and no third: the serializer's
  exception, with nothing returned, or the payload together with the metadata that
  describes it. The world is the same after either.
\<close>

theorem Pickler_call_all_or_nothing:
  "(\<exists>e. pickle_dumps rt obj (protocol self) = Inl e
        \<and> Pickler_call rt self obj w = (Inl e, w))
   \<or> (\<exists>data. pickle_dumps rt obj (protocol self) = Inr data
        \<and> Pickler_call rt self obj w = (Inr (data, Pickler_metadata data), w)
        \<and> Pickler_metadata data ''size'' = Some (PyInt (int (length data))))"
  by (cases "pickle_dumps rt obj (protocol self)")
     (simp_all add: Pickler_call_def Pickler_metadata_def)

text \<open>
  C4. \<^verbatim>\<open>__call__\<close> and \<^verbatim>\<open>save\<close> of \<^verbatim>\<open>Exporter\<close>, and \<^verbatim>\<open>add\<close> and
  \<^verbatim>\<open>export\<close> of \<^verbatim>\<open>Archive\<close>, raise \<^verbatim>\<open>NotImplementedError\<close> for all values
  of their parameters, and leave the world and the archive as they were.
\<close>

theorem base_methods_not_implemented:
  "Exporter_call obj fmt w = (Inl (NotImplementedError ''Exporter not implemented.''), w)
   \<and> Exporter_save obj basename fmt w
       = (Inl (NotImplementedError ''Exporter save method not implemented.''), w)
   \<and> Archive_add a obj args kwargs w = (Inl (NotImplementedError ''''), a, w)
   \<and> Archive_export a args kwargs w = (Inl (NotImplementedError ''''), a, w)"
  by (simp add: Exporter_call_def Exporter_save_def Archive_add_def Archive_export_def)

subsection \<open>Determinism\<close>


subsection \<open>The arguments of a call\<close>

text \<open>
  Binding against the signature of \<^verbatim>\<open>Pickler.__call__\<close> succeeds for one argument,
  given by position or as the keyword \<^verbatim>\<open>obj\<close>, and for nothing else.
\<close>

lemma bind_args_Pickler:
  "(\<exists>b. bind_args Pickler_call_signature args kwargs = Inr b)
     = (\<exists>obj. (args = [obj] \<and> kwargs = []) \<or> (args = [] \<and> kwargs = [(''obj'', obj)]))"
proof (cases args)
  case Nil
  show ?thesis
  proof (cases kwargs)
    case Nil
    with \<open>args = []\<close> show ?thesis
      by (simp add: bind_args_def Pickler_call_signature_def Let_def)
  next
    case (Cons kv rest)
    obtain k v where kv: "kv = (k, v)" by (cases kv)
    show ?thesis
    proof (cases rest)
      case Nil
      with \<open>args = []\<close> Cons kv show ?thesis
        by (auto simp: bind_args_def Pickler_call_signature_def Let_def split: if_splits)
    next
      case (Cons kv' rest')
      obtain k' v' where kv': "kv' = (k', v')" by (cases kv')
      with \<open>args = []\<close> \<open>kwargs = kv # rest\<close> Cons kv show ?thesis
        by (auto simp: bind_args_def Pickler_call_signature_def Let_def split: if_splits)
    qed
  qed
next
  case (Cons a rest)
  show ?thesis
  proof (cases rest)
    case Nil
    with Cons show ?thesis
      by (cases kwargs) (auto simp: bind_args_def Pickler_call_signature_def Let_def split: if_splits)
  next
    case (Cons a' rest')
    with \<open>args = a # rest\<close> show ?thesis
      by (simp add: bind_args_def Pickler_call_signature_def Let_def)
  qed
qed

text \<open>
  C8. \<^verbatim>\<open>Pickler.__call__\<close> takes the object and nothing more: a call with a format,
  by position or as the keyword \<^verbatim>\<open>fmt\<close>, raises \<^verbatim>\<open>TypeError\<close> before the body runs,
  and binding succeeds for exactly one argument. \<^verbatim>\<open>Exporter.__call__\<close> takes the
  format either way and has it \<^verbatim>\<open>None\<close> when it is not given; the call then reaches
  the body, which raises \<^verbatim>\<open>NotImplementedError\<close>.
\<close>

theorem Pickler_call_rejects_fmt:
  "Pickler_invoke rt self [obj, fmt] [] w = (Inl TypeError, w)
   \<and> Pickler_invoke rt self [obj] [(''fmt'', fmt)] w = (Inl TypeError, w)
   \<and> Pickler_invoke rt self [obj] [] w = Pickler_call rt self obj w
   \<and> ((\<exists>b. bind_args Pickler_call_signature args kwargs = Inr b)
        = (\<exists>x. (args = [x] \<and> kwargs = []) \<or> (args = [] \<and> kwargs = [(''obj'', x)])))
   \<and> Exporter_invoke [obj, fmt] [] w = Exporter_call obj fmt w
   \<and> Exporter_invoke [obj] [(''fmt'', fmt)] w = Exporter_call obj fmt w
   \<and> Exporter_invoke [obj] [] w = Exporter_call obj PyNone w
   \<and> Exporter_call obj fmt w = (Inl (NotImplementedError ''Exporter not implemented.''), w)"
proof -
  have "(\<exists>b. bind_args Pickler_call_signature args kwargs = Inr b)
          = (\<exists>x. (args = [x] \<and> kwargs = []) \<or> (args = [] \<and> kwargs = [(''obj'', x)]))"
    by (rule bind_args_Pickler)
  then show ?thesis
    by (simp add: Pickler_invoke_def Exporter_invoke_def bind_args_def defaults_of_def
        Pickler_call_signature_def Exporter_call_signature_def Exporter_call_def
        List.map_filter_simps)
qed

subsection \<open>The exporter of an archive\<close>

lemma ClassSelector_check_inv:
  "ClassSelector_check ExporterC val = Inr v \<Longrightarrow> Archive_inv \<lparr>exporter = v\<rparr>"
  by (auto simp: ClassSelector_check_def Archive_inv_def split: if_splits)

lemma Archive_init_inv: "Archive_init kw = Inr a \<Longrightarrow> Archive_inv a"
  by (auto simp: Archive_init_def Archive_inv_def ClassSelector_check_def
      split: option.splits sum.splits if_splits)

lemma Archive_set_exporter_inv: "Archive_set_exporter a val = Inr a' \<Longrightarrow> Archive_inv a'"
  by (auto simp: Archive_set_exporter_def Archive_inv_def ClassSelector_check_def
      split: sum.splits if_splits)

lemma Archive_step_inv: "Archive_inv (fst s) \<Longrightarrow> Archive_inv (fst (Archive_step x s))"
proof (cases s)
  case (Pair a w)
  assume inv: "Archive_inv (fst s)"
  show ?thesis
  proof (cases x)
    case (SetExporter val)
    with Pair inv show ?thesis
      by (cases "Archive_set_exporter a val") (auto dest: Archive_set_exporter_inv)
  next
    case (Add obj args kwargs)
    with Pair inv show ?thesis by (simp add: Archive_add_def)
  next
    case (Export args kwargs)
    with Pair inv show ?thesis by (simp add: Archive_export_def)
  qed
qed

lemma Archive_run_inv: "Archive_inv (fst s) \<Longrightarrow> Archive_inv (fst (Archive_run xs s))"
  by (induction xs arbitrary: s) (simp_all add: Archive_step_inv)

text \<open>
  C9. The \<^verbatim>\<open>exporter\<close> of an archive is \<^verbatim>\<open>None\<close> or an instance of \<^verbatim>\<open>Exporter\<close>:
  this holds of every archive the constructor returns and after every sequence of
  assignments, \<^verbatim>\<open>add\<close> and \<^verbatim>\<open>export\<close>; constructing an archive with a value that
  is neither, or assigning one, raises \<^verbatim>\<open>ValueError\<close> and leaves the archive as it
  was.
\<close>

theorem Archive_exporter_invariant:
  "(Archive_init kw = Inr a \<longrightarrow> Archive_inv a \<and> Archive_inv (fst (Archive_run xs (a, w))))
   \<and> (val \<noteq> PyNone \<and> \<not> isinstance val ExporterC \<longrightarrow>
        Archive_init (Some val) = Inl ValueError
      \<and> Archive_set_exporter a0 val = Inl ValueError
      \<and> Archive_step (SetExporter val) (a0, w) = (a0, w))
   \<and> (Archive_inv a0 = (exporter a0 = PyNone \<or> isinstance (exporter a0) ExporterC))"
proof (intro conjI impI)
  assume "Archive_init kw = Inr a"
  then show "Archive_inv a" by (rule Archive_init_inv)
  then show "Archive_inv (fst (Archive_run xs (a, w)))"
    using Archive_run_inv [of "(a, w)" xs] by simp
next
  assume "val \<noteq> PyNone \<and> \<not> isinstance val ExporterC"
  then show "Archive_init (Some val) = Inl ValueError"
    and "Archive_set_exporter a0 val = Inl ValueError"
    and "Archive_step (SetExporter val) (a0, w) = (a0, w)"
    by (simp_all add: Archive_init_def Archive_set_exporter_def ClassSelector_check_def)
next
  show "Archive_inv a0 = (exporter a0 = PyNone \<or> isinstance (exporter a0) ExporterC)"
    by (simp add: Archive_inv_def)
qed

theorem Archive_exporter_invariant_witness:
  "Archive_init (Some (PyInstance PicklerC [(''protocol'', PyInt 2)]))
     = Inr \<lparr>exporter = PyInstance PicklerC [(''protocol'', PyInt 2)]\<rparr>
   \<and> Archive_inv \<lparr>exporter = PyInstance PicklerC [(''protocol'', PyInt 2)]\<rparr>
   \<and> Archive_inv (fst (Archive_run
        [SetExporter (PyStr ''pkl''), Add (PyInt 1) [] [], SetExporter (PyInstance ExporterC []), Export [] []]
        (\<lparr>exporter = PyInstance PicklerC [(''protocol'', PyInt 2)]\<rparr>, empty_world)))
   \<and> fst (Archive_run
        [SetExporter (PyStr ''pkl''), Add (PyInt 1) [] [], SetExporter (PyInstance ExporterC []), Export [] []]
        (\<lparr>exporter = PyInstance PicklerC [(''protocol'', PyInt 2)]\<rparr>, empty_world))
       = \<lparr>exporter = PyInstance ExporterC []\<rparr>
   \<and> PyStr ''pkl'' \<noteq> PyNone \<and> \<not> isinstance (PyStr ''pkl'') ExporterC
   \<and> Archive_init (Some (PyStr ''pkl'')) = Inl ValueError
   \<and> Archive_set_exporter \<lparr>exporter = PyNone\<rparr> (PyStr ''pkl'') = Inl ValueError"
  using Archive_exporter_invariant [of "Some (PyInstance PicklerC [(''protocol'', PyInt 2)])"
      "\<lparr>exporter = PyInstance PicklerC [(''protocol'', PyInt 2)]\<rparr>"
      "[SetExporter (PyStr ''pkl''), Add (PyInt 1) [] [], SetExporter (PyInstance ExporterC []), Export [] []]"
      empty_world "PyStr ''pkl''" "\<lparr>exporter = PyNone\<rparr>"]
  by (simp add: Archive_init_def Archive_set_exporter_def ClassSelector_check_def
      Archive_add_def Archive_export_def)

end
